theory Spec2Isabelle
  imports Main
begin

section \<open>The alarm control panel (alarm_control_panel.py)\<close>

subsection \<open>Data\<close>

text \<open>
  The states of Home Assistant's \<open>AlarmControlPanelState\<close>. It is a string
  enumeration: comparing a member with a string, formatting it in an f-string and
  logging it with \<open>%s\<close> all use the member's value, given by \<open>state_str\<close>.
\<close>

datatype AlarmControlPanelState =
  DISARMED | ARMED_HOME | ARMED_AWAY | ARMED_NIGHT | ARMED_VACATION
  | ARMED_CUSTOM_BYPASS | PENDING | ARMING | DISARMING | TRIGGERED

fun state_str :: "AlarmControlPanelState \<Rightarrow> string" where
  "state_str DISARMED = ''disarmed''"
| "state_str ARMED_HOME = ''armed_home''"
| "state_str ARMED_AWAY = ''armed_away''"
| "state_str ARMED_NIGHT = ''armed_night''"
| "state_str ARMED_VACATION = ''armed_vacation''"
| "state_str ARMED_CUSTOM_BYPASS = ''armed_custom_bypass''"
| "state_str PENDING = ''pending''"
| "state_str ARMING = ''arming''"
| "state_str DISARMING = ''disarming''"
| "state_str TRIGGERED = ''triggered''"

text \<open>
  The status the remote panel reports (\<open>self._alarm.status\<close>). The six constants
  imported from \<open>pyadtpulse.alarm_panel\<close> are the keys of \<open>ALARM_MAP\<close>;
  \<open>ADT_ALARM_OTHER\<close> stands for every status that is not a key of the map.
\<close>

datatype adt_status =
  ADT_ALARM_OFF | ADT_ALARM_AWAY | ADT_ALARM_HOME | ADT_ALARM_NIGHT
  | ADT_ALARM_ARMING | ADT_ALARM_DISARMING | ADT_ALARM_OTHER

text \<open>\<open>ALARM_MAP.get\<close>: a status outside the map gives \<open>None\<close>.\<close>

fun ALARM_MAP :: "adt_status \<Rightarrow> AlarmControlPanelState option" where
  "ALARM_MAP ADT_ALARM_ARMING = Some ARMING"
| "ALARM_MAP ADT_ALARM_AWAY = Some ARMED_AWAY"
| "ALARM_MAP ADT_ALARM_DISARMING = Some DISARMING"
| "ALARM_MAP ADT_ALARM_HOME = Some ARMED_HOME"
| "ALARM_MAP ADT_ALARM_OFF = Some DISARMED"
| "ALARM_MAP ADT_ALARM_NIGHT = Some ARMED_NIGHT"
| "ALARM_MAP ADT_ALARM_OTHER = None"

definition FORCE_ARM :: string where
  "FORCE_ARM = ''force arm''"

definition ARM_ERROR_MESSAGE :: string where
  "ARM_ERROR_MESSAGE =
     ''Pulse system cannot be armed due to opened/tripped zone - use '' @ FORCE_ARM"

text \<open>
  What the entity reads through from the remote site: the panel's status, whether the
  gateway is online, and the answer of \<open>system_can_be_armed(self._site)\<close>. That helper
  lives in utils.py, which is not among the sources; its answer is a field here, false
  when a zone is opened or tripped.
\<close>

record ADTPulseSite =
  alarm_status :: adt_status
  gateway_is_online :: bool
  system_can_be_armed :: bool

text \<open>The entity's own mutable state: \<open>self._assumed_state\<close>.\<close>

record ADTPulseAlarm =
  assumed_state :: "AlarmControlPanelState option"

text \<open>
  The coroutines of the site the six commands pass as \<open>arm_disarm_func\<close>; the flag is
  \<open>force_arm\<close>. Creating the coroutine does nothing: the remote command is issued
  when \<open>_perform_alarm_action\<close> awaits it.
\<close>

datatype arm_disarm_func =
  async_disarm | async_arm_home bool | async_arm_away bool | async_arm_night

text \<open>What awaiting the coroutine gives: its boolean result, or an exception.\<close>

datatype remote_reply = Returned bool | Raised string

type_synonym remote = "arm_disarm_func \<Rightarrow> ADTPulseSite \<Rightarrow> remote_reply \<times> ADTPulseSite"

text \<open>
  The exceptions of both modules. \<open>RemoteException\<close> is an exception raised by the awaited
  remote command; \<open>OtherException\<close> is any exception of \<open>wait_for_update\<close> that
  only the clause \<open>except Exception\<close> catches.
\<close>

datatype py_exception =
  HomeAssistantError string | RemoteException string | KeyError string
  | PulseLoginException | PulseExceptionWithRetry | PulseExceptionWithBackoff
  | CancelledError | OtherException string

text \<open>
  What a command does that others can see, in order: an assignment to
  \<open>self._assumed_state\<close>, a call of \<open>async_write_ha_state\<close> (with the resolved
  state it publishes), the awaited remote command, a logged warning.
\<close>

datatype alarm_event =
  SetAssumed "AlarmControlPanelState option"
  | WriteState "AlarmControlPanelState option"
  | RemoteCall arm_disarm_func
  | LogWarning string

record action_result =
  outcome :: "py_exception + unit"
  entity :: ADTPulseAlarm
  site_after :: ADTPulseSite
  trace :: "alarm_event list"

subsection \<open>Operations\<close>

text \<open>The property \<open>alarm_state\<close>: the assumed state if there is one, else the mapped status.\<close>

definition alarm_state :: "ADTPulseAlarm \<Rightarrow> ADTPulseSite \<Rightarrow> AlarmControlPanelState option" where
  "alarm_state ent site =
     (case assumed_state ent of
        Some s \<Rightarrow> Some s
      | None \<Rightarrow> ALARM_MAP (alarm_status site))"

text \<open>How an f-string prints the optional state: the value, or \<open>None\<close>.\<close>

definition format_state :: "AlarmControlPanelState option \<Rightarrow> string" where
  "format_state s = (case s of None \<Rightarrow> ''None'' | Some v \<Rightarrow> state_str v)"

definition conflict_message :: "AlarmControlPanelState \<Rightarrow> AlarmControlPanelState option \<Rightarrow> string" where
  "conflict_message new_state current =
     ''Cannot set alarm to '' @ state_str new_state
       @ '' because currently set to '' @ format_state current"

definition check_if_system_armable ::
  "ADTPulseAlarm \<Rightarrow> ADTPulseSite \<Rightarrow> AlarmControlPanelState \<Rightarrow> py_exception + unit" where
  "check_if_system_armable ent site new_state =
     (if alarm_state ent site \<noteq> Some DISARMED
      then Inl (HomeAssistantError (conflict_message new_state (alarm_state ent site)))
      else if state_str new_state \<noteq> FORCE_ARM \<and> \<not> system_can_be_armed site
      then Inl (HomeAssistantError ARM_ERROR_MESSAGE)
      else Inr ())"

definition could_not_warning :: "AlarmControlPanelState \<Rightarrow> string" where
  "could_not_warning action = ''Could not '' @ state_str action @ '' ADT Pulse alarm''"

definition rejected_message :: "AlarmControlPanelState \<Rightarrow> string" where
  "rejected_message action = ''Could not set alarm status to '' @ state_str action"

definition same_state_warning :: string where
  "same_state_warning = ''Attempting to set alarm to same state, ignoring''"

text \<open>The value written to \<open>self._assumed_state\<close> before the remote command is awaited.\<close>

definition optimistic_state :: "ADTPulseSite \<Rightarrow> AlarmControlPanelState \<Rightarrow> AlarmControlPanelState" where
  "optimistic_state site action =
     (if \<not> gateway_is_online site then action
      else if action = DISARMED then DISARMING
      else ARMING)"

definition perform_alarm_action ::
  "remote \<Rightarrow> arm_disarm_func \<Rightarrow> AlarmControlPanelState \<Rightarrow> ADTPulseAlarm \<Rightarrow> ADTPulseSite
     \<Rightarrow> action_result" where
  "perform_alarm_action rem func action ent site =
     (case (if action \<noteq> DISARMED then check_if_system_armable ent site action else Inr ()) of
        Inl e \<Rightarrow> \<lparr>outcome = Inl e, entity = ent, site_after = site, trace = []\<rparr>
      | Inr _ \<Rightarrow>
          if alarm_state ent site = Some action
          then \<lparr>outcome = Inr (), entity = ent, site_after = site,
                 trace = [LogWarning same_state_warning]\<rparr>
          else
            let ent1 = ent\<lparr>assumed_state := Some (optimistic_state site action)\<rparr>;
                before = [SetAssumed (assumed_state ent1), WriteState (alarm_state ent1 site),
                          RemoteCall func]
            in (case rem func site of
                  (Raised x, site') \<Rightarrow>
                    \<lparr>outcome = Inl (RemoteException x), entity = ent1, site_after = site',
                      trace = before\<rparr>
                | (Returned result, site') \<Rightarrow>
                    let ent2 = ent1\<lparr>assumed_state := None\<rparr>
                    in \<lparr>outcome = (if \<not> result
                                     then Inl (HomeAssistantError (rejected_message action))
                                     else Inr ()),
                         entity = ent2, site_after = site',
                         trace = before
                           @ (if \<not> result then [LogWarning (could_not_warning action)] else [])
                           @ [SetAssumed None, WriteState (alarm_state ent2 site')]\<rparr>))"

text \<open>The six commands of the entity.\<close>

definition async_alarm_disarm :: "remote \<Rightarrow> ADTPulseAlarm \<Rightarrow> ADTPulseSite \<Rightarrow> action_result" where
  "async_alarm_disarm rem = perform_alarm_action rem async_disarm DISARMED"

definition async_alarm_arm_home :: "remote \<Rightarrow> ADTPulseAlarm \<Rightarrow> ADTPulseSite \<Rightarrow> action_result" where
  "async_alarm_arm_home rem = perform_alarm_action rem (async_arm_home False) ARMED_HOME"

definition async_alarm_arm_away :: "remote \<Rightarrow> ADTPulseAlarm \<Rightarrow> ADTPulseSite \<Rightarrow> action_result" where
  "async_alarm_arm_away rem = perform_alarm_action rem (async_arm_away False) ARMED_AWAY"

definition async_alarm_arm_custom_bypass ::
  "remote \<Rightarrow> ADTPulseAlarm \<Rightarrow> ADTPulseSite \<Rightarrow> action_result" where
  "async_alarm_arm_custom_bypass rem =
     perform_alarm_action rem (async_arm_away True) ARMED_CUSTOM_BYPASS"

definition async_alarm_arm_night :: "remote \<Rightarrow> ADTPulseAlarm \<Rightarrow> ADTPulseSite \<Rightarrow> action_result" where
  "async_alarm_arm_night rem = perform_alarm_action rem async_arm_night ARMED_NIGHT"

definition async_alarm_arm_force_stay ::
  "remote \<Rightarrow> ADTPulseAlarm \<Rightarrow> ADTPulseSite \<Rightarrow> action_result" where
  "async_alarm_arm_force_stay rem = perform_alarm_action rem (async_arm_home True) ARMED_HOME"


section \<open>The update coordinator (coordinator.py)\<close>

subsection \<open>Data\<close>

definition ALARM_CONTEXT :: string where
  "ALARM_CONTEXT = ''Alarm''"

definition ZONE_CONTEXT_PREFIX :: string where
  "ZONE_CONTEXT_PREFIX = ''Zone ''"

definition ZONE_TROUBLE_PREFIX :: string where
  "ZONE_TROUBLE_PREFIX = '' Trouble''"

definition CONNECTION_STATUS_CONTEXT :: string where
  "CONNECTION_STATUS_CONTEXT = ''ConnectionStatus''"

definition NEXT_REFRESH_CONTEXT :: string where
  "NEXT_REFRESH_CONTEXT = ''NextRefresh''"

text \<open>
  What \<open>wait_for_update\<close> returns, \<open>tuple[bool, set[int]]\<close>: whether the alarm
  changed, and the ids of the zones that changed. The list is the set in the order the
  \<open>for\<close> loop of \<open>async_update_listeners\<close> walks it.
\<close>

type_synonym snapshot = "bool \<times> int list"

text \<open>
  The coordinator. \<open>listener_dictionary\<close> is the dictionary of this class. The other
  fields belong to the base class, Home Assistant's \<open>DataUpdateCoordinator\<close>, which
  the source reaches through \<open>super()\<close> and through the inherited methods
  \<open>async_set_update_error\<close> and \<open>async_set_updated_data\<close>: \<open>data\<close>,
  \<open>last_update_success\<close>, \<open>last_exception\<close>, and the base registry
  \<open>listeners\<close>, which holds one entry (listener id, callback, context) per registration,
  in the order of registration. A callback is an opaque value of type \<open>'cb\<close>.
\<close>

record 'cb coordinator =
  data :: "snapshot option"
  last_update_success :: bool
  last_exception :: "py_exception option"
  listener_dictionary :: "string \<rightharpoonup> 'cb"
  listeners :: "(nat \<times> 'cb \<times> string) list"
  last_listener_id :: nat
  has_config_entry :: bool

text \<open>The coordinator as \<open>__init__\<close> leaves it.\<close>

definition new_coordinator :: "bool \<Rightarrow> 'cb coordinator" where
  "new_coordinator ce =
     \<lparr>data = None, last_update_success = True, last_exception = None,
      listener_dictionary = Map.empty, listeners = [], last_listener_id = 0,
      has_config_entry = ce\<rparr>"

text \<open>
  What the coordinator does that others can see: an entry into
  \<open>async_update_listeners\<close> (with \<open>self.data\<close> at that moment), a call of a
  listener's callback, the start of the re-authentication flow.
\<close>

datatype 'cb coordinator_event =
  FanOut "snapshot option" | Call 'cb | StartReauth

text \<open>A run of calls: the events so far, and the exception that ended it, if any.\<close>

type_synonym 'cb run = "'cb coordinator_event list \<times> py_exception option"

definition and_then :: "'cb run \<Rightarrow> 'cb run \<Rightarrow> 'cb run" where
  "and_then r1 r2 =
     (case snd r1 of
        Some e \<Rightarrow> r1
      | None \<Rightarrow> (fst r1 @ fst r2, snd r2))"

text \<open>What the wait for the next update gives: a snapshot, or an exception.\<close>

datatype wait_result = Update snapshot | Raises py_exception

text \<open>How one pass through the body of the \<open>while\<close> loop leaves it.\<close>

datatype control = Continue | Return | Raise py_exception

text \<open>
  How the background task stands when the script of the remote client's answers is used
  up: still suspended in \<open>wait_for_update\<close>, finished, or ended by an exception.
\<close>

datatype loop_end = Suspended | Finished | Failed py_exception

subsection \<open>Python's \<open>str\<close> of an integer\<close>

definition digit_char :: "nat \<Rightarrow> char" where
  "digit_char d = ''0123456789'' ! d"

fun str_nat :: "nat \<Rightarrow> string" where
  "str_nat n = (if n < 10 then [digit_char n] else str_nat (n div 10) @ [digit_char (n mod 10)])"

declare str_nat.simps [simp del]

definition py_str :: "int \<Rightarrow> string" where
  "py_str i = (if i < 0 then CHR ''-'' # str_nat (nat (- i)) else str_nat (nat i))"

subsection \<open>The listener registry\<close>

text \<open>
  The base class's \<open>async_add_listener\<close>: a new entry under a fresh listener id; the
  handle it returns removes that entry, and no other.
\<close>

definition super_async_add_listener :: "'cb \<Rightarrow> string \<Rightarrow> 'cb coordinator \<Rightarrow> nat \<times> 'cb coordinator" where
  "super_async_add_listener update_callback ctx c =
     (let i = last_listener_id c + 1
      in (i, c\<lparr>last_listener_id := i, listeners := listeners c @ [(i, update_callback, ctx)]\<rparr>))"

definition remove_listener :: "nat \<Rightarrow> 'cb coordinator \<Rightarrow> py_exception + 'cb coordinator" where
  "remove_listener i c =
     (if i \<in> fst ` set (listeners c)
      then Inr (c\<lparr>listeners := filter (\<lambda>e. fst e \<noteq> i) (listeners c)\<rparr>)
      else Inl (KeyError ''listener''))"

definition async_add_listener :: "'cb \<Rightarrow> string \<Rightarrow> 'cb coordinator \<Rightarrow> nat \<times> 'cb coordinator" where
  "async_add_listener update_callback ctx c =
     super_async_add_listener update_callback ctx
       (c\<lparr>listener_dictionary := (listener_dictionary c)(ctx \<mapsto> update_callback)\<rparr>)"

text \<open>A sequence of registrations, each a pair of callback and context.\<close>

fun add_listeners :: "('cb \<times> string) list \<Rightarrow> 'cb coordinator \<Rightarrow> 'cb coordinator" where
  "add_listeners [] c = c"
| "add_listeners ((cb, ctx) # regs) c = add_listeners regs (snd (async_add_listener cb ctx c))"

subsection \<open>Fan-out\<close>

text \<open>\<open>self._listener_dictionary[k]()\<close>: a missing key raises \<open>KeyError\<close>.\<close>

definition call_listener :: "(string \<rightharpoonup> 'cb) \<Rightarrow> string \<Rightarrow> 'cb run" where
  "call_listener d k =
     (case d k of
        None \<Rightarrow> ([], Some (KeyError k))
      | Some cb \<Rightarrow> ([Call cb], None))"

text \<open>The loop over the changed zones: the zone's listener, then its trouble listener.\<close>

fun update_zones :: "(string \<rightharpoonup> 'cb) \<Rightarrow> int list \<Rightarrow> 'cb run" where
  "update_zones d [] = ([], None)"
| "update_zones d (z # zs) =
     and_then (call_listener d (ZONE_CONTEXT_PREFIX @ py_str z))
       (and_then (call_listener d (ZONE_CONTEXT_PREFIX @ py_str z @ ZONE_TROUBLE_PREFIX))
          (update_zones d zs))"

text \<open>The base class's \<open>async_update_listeners\<close>: every entry of its registry, in order.\<close>

definition callbacks :: "'cb coordinator \<Rightarrow> 'cb list" where
  "callbacks c = map (\<lambda>e. fst (snd e)) (listeners c)"

definition super_async_update_listeners :: "'cb coordinator \<Rightarrow> 'cb run" where
  "super_async_update_listeners c = (map Call (callbacks c), None)"

definition async_update_listeners :: "'cb coordinator \<Rightarrow> 'cb run" where
  "async_update_listeners c =
     and_then ([FanOut (data c)], None)
       (case data c of
          None \<Rightarrow> super_async_update_listeners c
        | Some (alarm_changed, zones) \<Rightarrow>
            and_then
              (if alarm_changed then call_listener (listener_dictionary c) ALARM_CONTEXT
               else ([], None))
              (and_then (update_zones (listener_dictionary c) zones)
                 (and_then (call_listener (listener_dictionary c) CONNECTION_STATUS_CONTEXT)
                    (call_listener (listener_dictionary c) NEXT_REFRESH_CONTEXT))))"

subsection \<open>The update loop\<close>

text \<open>
  The base class's \<open>async_set_update_error\<close>: it records the exception and, when the
  last update had succeeded, clears that flag and notifies the listeners; it leaves
  \<open>data\<close> alone.
\<close>

definition async_set_update_error :: "py_exception \<Rightarrow> 'cb coordinator \<Rightarrow> 'cb coordinator \<times> 'cb run" where
  "async_set_update_error err c =
     (let c1 = c\<lparr>last_exception := Some err\<rparr>
      in if last_update_success c1
         then (let c2 = c1\<lparr>last_update_success := False\<rparr> in (c2, async_update_listeners c2))
         else (c1, ([], None)))"

text \<open>
  The base class's \<open>async_set_updated_data\<close>: it stores the data, sets
  \<open>last_update_success\<close> and notifies the listeners.
\<close>

definition async_set_updated_data :: "snapshot option \<Rightarrow> 'cb coordinator \<Rightarrow> 'cb coordinator \<times> 'cb run" where
  "async_set_updated_data d c =
     (let c1 = c\<lparr>data := d, last_update_success := True\<rparr>
      in (c1, async_update_listeners c1))"

text \<open>The \<open>finally\<close> clause of the loop body.\<close>

definition finally_clause ::
  "py_exception option \<Rightarrow> snapshot option \<Rightarrow> 'cb coordinator \<Rightarrow> 'cb coordinator \<times> 'cb run" where
  "finally_clause update_exception d c =
     (case update_exception of
        Some ex \<Rightarrow>
          (case async_set_update_error ex c of
             (c1, (tr1, Some e)) \<Rightarrow> (c1, (tr1, Some e))
           | (c1, (tr1, None)) \<Rightarrow>
               (let c2 = c1\<lparr>data := None\<rparr>
                in if \<not> last_update_success c2
                   then (c2, and_then (tr1, None) (async_update_listeners c2))
                   else (c2, (tr1, None))))
      | None \<Rightarrow> async_set_updated_data d (c\<lparr>last_exception := None\<rparr>))"

text \<open>
  The \<open>try\<close> statement with its \<open>except\<close> clauses, in their order: what the clause
  leaves in \<open>update_exception\<close> and \<open>data\<close>, how it leaves the loop body, and what
  it does before the \<open>finally\<close> clause runs.
\<close>

definition except_clauses ::
  "wait_result \<Rightarrow> 'cb coordinator
     \<Rightarrow> control \<times> py_exception option \<times> snapshot option \<times> 'cb coordinator_event list" where
  "except_clauses w c =
     (case w of
        Update s \<Rightarrow> (Continue, None, Some s, [])
      | Raises PulseLoginException \<Rightarrow>
          (Return, None, None, if has_config_entry c then [StartReauth] else [])
      | Raises PulseExceptionWithRetry \<Rightarrow> (Continue, Some PulseExceptionWithRetry, None, [])
      | Raises PulseExceptionWithBackoff \<Rightarrow> (Continue, Some PulseExceptionWithBackoff, None, [])
      | Raises CancelledError \<Rightarrow> (Return, None, None, [])
      | Raises ex \<Rightarrow> (Raise ex, None, None, []))"

text \<open>
  One pass through the loop body. The \<open>finally\<close> clause runs on every way out of the
  \<open>try\<close> statement, also after \<open>return\<close> and \<open>raise\<close>; an exception it raises
  replaces the pending way out.
\<close>

definition update_cycle ::
  "wait_result \<Rightarrow> 'cb coordinator \<Rightarrow> control \<times> 'cb coordinator \<times> 'cb coordinator_event list" where
  "update_cycle w c =
     (case except_clauses w c of
        (ctl, update_exception, d, before) \<Rightarrow>
          (case finally_clause update_exception d c of
             (c', (tr, Some e)) \<Rightarrow> (Raise e, c', before @ tr)
           | (c', (tr, None)) \<Rightarrow> (ctl, c', before @ tr)))"

text \<open>
  The loop of \<open>_async_update_data\<close>, run against a script: for each pass, whether the
  loop condition finds a shutdown requested (or the host stopping), and what
  \<open>wait_for_update\<close> then gives.
\<close>

fun async_update_data ::
  "(bool \<times> wait_result) list \<Rightarrow> 'cb coordinator
     \<Rightarrow> loop_end \<times> 'cb coordinator \<times> 'cb coordinator_event list" where
  "async_update_data [] c = (Suspended, c, [])"
| "async_update_data ((stopping, w) # script) c =
     (if stopping then (Finished, c, [])
      else (case update_cycle w c of
              (Continue, c', tr) \<Rightarrow>
                (case async_update_data script c' of
                   (e, c'', tr') \<Rightarrow> (e, c'', tr @ tr'))
            | (Return, c', tr) \<Rightarrow> (Finished, c', tr)
            | (Raise ex, c', tr) \<Rightarrow> (Failed ex, c', tr)))"

text \<open>The snapshots of the fan-outs in a trace, in order.\<close>

fun fan_outs :: "'cb coordinator_event list \<Rightarrow> snapshot option list" where
  "fan_outs [] = []"
| "fan_outs (FanOut d # es) = d # fan_outs es"
| "fan_outs (e # es) = fan_outs es"


section \<open>Definitions the statements use\<close>

subsection \<open>The topics a snapshot names\<close>

definition zone_topic :: "int \<Rightarrow> string" where
  "zone_topic z = ZONE_CONTEXT_PREFIX @ py_str z"

definition zone_trouble_topic :: "int \<Rightarrow> string" where
  "zone_trouble_topic z = ZONE_CONTEXT_PREFIX @ py_str z @ ZONE_TROUBLE_PREFIX"

text \<open>
  The specification's list for a snapshot that is not \<open>None\<close>: the alarm topic if the
  alarm changed, the zone topic and the zone-trouble topic of each changed zone, and the
  connection-status and next-refresh topics.
\<close>

definition snapshot_topics :: "snapshot \<Rightarrow> string list" where
  "snapshot_topics s =
     (if fst s then [ALARM_CONTEXT] else [])
     @ concat (map (\<lambda>z. [zone_topic z, zone_trouble_topic z]) (snd s))
     @ [CONNECTION_STATUS_CONTEXT, NEXT_REFRESH_CONTEXT]"

subsection \<open>Concrete panels, remote clients and coordinators\<close>

definition idle_alarm :: ADTPulseAlarm where
  "idle_alarm = \<lparr>assumed_state = None\<rparr>"

definition disarmed_site :: ADTPulseSite where
  "disarmed_site =
     \<lparr>alarm_status = ADT_ALARM_OFF, gateway_is_online = True, system_can_be_armed = True\<rparr>"

definition open_zone_site :: ADTPulseSite where
  "open_zone_site =
     \<lparr>alarm_status = ADT_ALARM_OFF, gateway_is_online = True, system_can_be_armed = False\<rparr>"

definition armed_away_site :: ADTPulseSite where
  "armed_away_site =
     \<lparr>alarm_status = ADT_ALARM_AWAY, gateway_is_online = True, system_can_be_armed = True\<rparr>"

definition offline_site :: ADTPulseSite where
  "offline_site =
     \<lparr>alarm_status = ADT_ALARM_OFF, gateway_is_online = False, system_can_be_armed = True\<rparr>"

definition offline_away_site :: ADTPulseSite where
  "offline_away_site =
     \<lparr>alarm_status = ADT_ALARM_AWAY, gateway_is_online = False, system_can_be_armed = True\<rparr>"

text \<open>A remote panel that carries every command out, one that rejects it, one that fails.\<close>

definition panel_accepts :: remote where
  "panel_accepts f s =
     (Returned True,
      s\<lparr>alarm_status :=
           (case f of
              async_disarm \<Rightarrow> ADT_ALARM_OFF
            | async_arm_home _ \<Rightarrow> ADT_ALARM_HOME
            | async_arm_away _ \<Rightarrow> ADT_ALARM_AWAY
            | async_arm_night \<Rightarrow> ADT_ALARM_NIGHT)\<rparr>)"

definition panel_rejects :: remote where
  "panel_rejects f s = (Returned False, s)"

definition panel_raises :: remote where
  "panel_raises f s = (Raised ''connection lost'', s)"

text \<open>A coordinator with listeners for the two topics every fan-out looks up.\<close>

definition two_listeners :: "nat coordinator" where
  "two_listeners =
     add_listeners [(1, CONNECTION_STATUS_CONTEXT), (2, NEXT_REFRESH_CONTEXT)]
       (new_coordinator True)"

text \<open>A coordinator with a listener for every topic of zone 3, and one more for zone 4.\<close>

definition zone_listeners :: "nat coordinator" where
  "zone_listeners =
     add_listeners
       [(1, ALARM_CONTEXT), (2, zone_topic 3), (3, zone_trouble_topic 3),
        (4, CONNECTION_STATUS_CONTEXT), (5, NEXT_REFRESH_CONTEXT), (6, zone_topic 4)]
       (new_coordinator True)"

section \<open>The alarm commands\<close>

subsection \<open>Auxiliary facts\<close>

lemma state_str_not_FORCE_ARM: "state_str a \<noteq> FORCE_ARM"
  by (cases a) (simp_all add: FORCE_ARM_def)

text \<open>
  No state's value is \<open>FORCE_ARM\<close>, so the test for it in
  \<open>_check_if_system_armable\<close> never lets a command past the open-zone check.
\<close>

lemma check_bypass_ignored:
  "check_if_system_armable ent site new_state =
     (if alarm_state ent site \<noteq> Some DISARMED
      then Inl (HomeAssistantError (conflict_message new_state (alarm_state ent site)))
      else if \<not> system_can_be_armed site then Inl (HomeAssistantError ARM_ERROR_MESSAGE)
      else Inr ())"
  by (simp add: check_if_system_armable_def state_str_not_FORCE_ARM)

lemma rejected_not_precondition:
  "rejected_message action \<noteq> conflict_message a c"
  "rejected_message action \<noteq> ARM_ERROR_MESSAGE"
  "conflict_message a c \<noteq> rejected_message action"
  "ARM_ERROR_MESSAGE \<noteq> rejected_message action"
  by (simp_all add: rejected_message_def conflict_message_def ARM_ERROR_MESSAGE_def)

text \<open>A command that is past both checks: what is left of \<open>_perform_alarm_action\<close>.\<close>

lemma perform_past_checks:
  assumes "action = DISARMED \<or> check_if_system_armable ent site action = Inr ()"
    and "alarm_state ent site \<noteq> Some action"
  shows "perform_alarm_action rem func action ent site =
     (let ent1 = ent\<lparr>assumed_state := Some (optimistic_state site action)\<rparr>;
          before = [SetAssumed (Some (optimistic_state site action)),
                    WriteState (Some (optimistic_state site action)), RemoteCall func]
      in (case rem func site of
            (Raised x, site') \<Rightarrow>
              \<lparr>outcome = Inl (RemoteException x), entity = ent1, site_after = site',
                trace = before\<rparr>
          | (Returned result, site') \<Rightarrow>
              \<lparr>outcome = (if \<not> result
                             then Inl (HomeAssistantError (rejected_message action))
                             else Inr ()),
                entity = ent\<lparr>assumed_state := None\<rparr>, site_after = site',
                trace = before
                  @ (if \<not> result then [LogWarning (could_not_warning action)] else [])
                  @ [SetAssumed None, WriteState (ALARM_MAP (alarm_status site'))]\<rparr>))"
  using assms
  by (auto simp: perform_alarm_action_def alarm_state_def Let_def
      split: prod.splits remote_reply.splits)

lemmas alarm_eval =
  idle_alarm_def disarmed_site_def open_zone_site_def armed_away_site_def offline_site_def
  offline_away_site_def panel_accepts_def panel_rejects_def panel_raises_def
  async_alarm_disarm_def async_alarm_arm_home_def async_alarm_arm_away_def
  async_alarm_arm_custom_bypass_def async_alarm_arm_night_def async_alarm_arm_force_stay_def
  perform_alarm_action_def check_bypass_ignored alarm_state_def optimistic_state_def
  conflict_message_def format_state_def rejected_message_def could_not_warning_def
  same_state_warning_def Let_def

subsection \<open>Bypass commands and the open-zone check\<close>

text \<open>
  Claim C1. A bypass command (\<open>async_alarm_arm_custom_bypass\<close>,
  \<open>async_alarm_arm_force_stay\<close>) is to skip the open-zone check: with the panel
  disarmed and a zone open it should go on to the remote command. The code does not: the
  check compares the requested state with \<open>FORCE_ARM\<close>, which no command passes, so
  both bypass commands fail with \<open>ARM_ERROR_MESSAGE\<close> and issue no remote command,
  whatever the remote panel would have answered.
\<close>

theorem bypass_fails_on_open_zone:
  "async_alarm_arm_custom_bypass rem idle_alarm open_zone_site =
     \<lparr>outcome = Inl (HomeAssistantError ARM_ERROR_MESSAGE), entity = idle_alarm,
      site_after = open_zone_site, trace = []\<rparr>
   \<and> async_alarm_arm_force_stay rem idle_alarm open_zone_site =
     \<lparr>outcome = Inl (HomeAssistantError ARM_ERROR_MESSAGE), entity = idle_alarm,
      site_after = open_zone_site, trace = []\<rparr>"
  by (simp add: alarm_eval)

subsection \<open>The precondition of the arm commands\<close>

text \<open>
  Claim C7. An arm command (every action but \<open>DISARMED\<close>) whose resolved current
  state is not \<open>DISARMED\<close> fails with the conflicting-state error, whose message names
  the requested and the current state; nothing is published, no remote command is
  issued, and the entity and its assumed state are as before.
\<close>

theorem arm_conflicting_state:
  assumes "action \<noteq> DISARMED" and "alarm_state ent site \<noteq> Some DISARMED"
  shows "perform_alarm_action rem func action ent site =
     \<lparr>outcome = Inl (HomeAssistantError
          (''Cannot set alarm to '' @ state_str action @ '' because currently set to ''
             @ format_state (alarm_state ent site))),
      entity = ent, site_after = site, trace = []\<rparr>"
  using assms
  by (simp add: perform_alarm_action_def check_if_system_armable_def conflict_message_def)

theorem arm_conflicting_state_witness:
  "ARMED_HOME \<noteq> DISARMED
   \<and> alarm_state idle_alarm armed_away_site \<noteq> Some DISARMED
   \<and> async_alarm_arm_home panel_accepts idle_alarm armed_away_site =
       \<lparr>outcome = Inl (HomeAssistantError
            ''Cannot set alarm to armed_home because currently set to armed_away''),
        entity = idle_alarm, site_after = armed_away_site, trace = []\<rparr>"
  using arm_conflicting_state [of ARMED_HOME idle_alarm armed_away_site panel_accepts
      "async_arm_home False"]
  by (simp add: alarm_eval)

subsection \<open>A request for the current state\<close>

text \<open>
  Claim C5 says that a command whose target is already the resolved state does nothing
  and raises no error. For an arm command the precondition check runs first and fails:
  with the panel armed away, arming away raises the conflicting-state error.
\<close>

theorem same_state_request_counterexample:
  "alarm_state idle_alarm armed_away_site = Some ARMED_AWAY
   \<and> outcome (async_alarm_arm_away panel_accepts idle_alarm armed_away_site) =
       Inl (HomeAssistantError
         ''Cannot set alarm to armed_away because currently set to armed_away'')"
  by (simp add: alarm_eval)

text \<open>
  Claim C5, amended. A command whose target is already the resolved state issues no
  remote command and leaves the assumed state as it is. Disarm then returns normally
  after the warning; an arm command fails in the precondition check with the
  conflicting-state error.
\<close>

theorem same_state_request:
  assumes "alarm_state ent site = Some action"
  shows "perform_alarm_action rem func action ent site =
     (if action = DISARMED
      then \<lparr>outcome = Inr (), entity = ent, site_after = site,
             trace = [LogWarning ''Attempting to set alarm to same state, ignoring'']\<rparr>
      else \<lparr>outcome = Inl (HomeAssistantError
                  (''Cannot set alarm to '' @ state_str action
                     @ '' because currently set to '' @ state_str action)),
             entity = ent, site_after = site, trace = []\<rparr>)"
  using assms
  by (simp add: perform_alarm_action_def check_if_system_armable_def conflict_message_def
      format_state_def same_state_warning_def)

theorem same_state_request_witness:
  "alarm_state idle_alarm disarmed_site = Some DISARMED
   \<and> async_alarm_disarm panel_accepts idle_alarm disarmed_site =
       \<lparr>outcome = Inr (), entity = idle_alarm, site_after = disarmed_site,
        trace = [LogWarning ''Attempting to set alarm to same state, ignoring'']\<rparr>"
  using same_state_request [of idle_alarm disarmed_site DISARMED panel_accepts async_disarm]
  by (simp add: alarm_eval)

subsection \<open>The optimistic transition\<close>

text \<open>
  Claim C6. A command that is past the precondition check (or is a disarm, which has
  none) and past the idempotence check first does three things, in this order: it sets
  the assumed state, publishes it, and only then awaits the remote command. The assumed
  state is the requested target when the gateway is offline; otherwise it is
  \<open>DISARMING\<close> for a disarm and \<open>ARMING\<close> for every arm command.
\<close>

theorem optimistic_transition:
  assumes "action = DISARMED \<or> check_if_system_armable ent site action = Inr ()"
    and "alarm_state ent site \<noteq> Some action"
  shows "take 3 (trace (perform_alarm_action rem func action ent site)) =
     (if \<not> gateway_is_online site
      then [SetAssumed (Some action), WriteState (Some action), RemoteCall func]
      else if action = DISARMED
      then [SetAssumed (Some DISARMING), WriteState (Some DISARMING), RemoteCall func]
      else [SetAssumed (Some ARMING), WriteState (Some ARMING), RemoteCall func])"
  unfolding perform_past_checks [OF assms]
  by (simp add: Let_def optimistic_state_def split: prod.splits remote_reply.splits)

theorem optimistic_transition_witness:
  "check_if_system_armable idle_alarm offline_site ARMED_NIGHT = Inr ()
   \<and> alarm_state idle_alarm offline_site \<noteq> Some ARMED_NIGHT
   \<and> take 3 (trace (async_alarm_arm_night panel_accepts idle_alarm offline_site)) =
       [SetAssumed (Some ARMED_NIGHT), WriteState (Some ARMED_NIGHT), RemoteCall async_arm_night]
   \<and> take 3 (trace (async_alarm_arm_away panel_accepts idle_alarm disarmed_site)) =
       [SetAssumed (Some ARMING), WriteState (Some ARMING), RemoteCall (async_arm_away False)]
   \<and> take 3 (trace (async_alarm_disarm panel_accepts idle_alarm armed_away_site)) =
       [SetAssumed (Some DISARMING), WriteState (Some DISARMING), RemoteCall async_disarm]"
  using optimistic_transition [of ARMED_NIGHT idle_alarm offline_site panel_accepts
      async_arm_night]
  by (simp add: alarm_eval)

subsection \<open>An exception of the remote command\<close>

text \<open>
  Claim C10. For a command that is past both checks: if the awaited remote command
  raises, the command ends with that exception, the assumed state stays at the value of
  the optimistic transition (the target when the gateway is offline, else the transient
  marker), and no clearing assignment has happened; the assumed state is cleared exactly
  when the remote command returns a boolean.
\<close>

theorem remote_exception_keeps_assumed_state:
  assumes "action = DISARMED \<or> check_if_system_armable ent site action = Inr ()"
    and "alarm_state ent site \<noteq> Some action"
  shows "(case fst (rem func site) of
       Raised x \<Rightarrow>
         outcome (perform_alarm_action rem func action ent site) = Inl (RemoteException x)
         \<and> assumed_state (entity (perform_alarm_action rem func action ent site)) =
             Some (if \<not> gateway_is_online site then action
                   else if action = DISARMED then DISARMING else ARMING)
         \<and> SetAssumed None \<notin> set (trace (perform_alarm_action rem func action ent site))
     | Returned b \<Rightarrow>
         assumed_state (entity (perform_alarm_action rem func action ent site)) = None
         \<and> SetAssumed None \<in> set (trace (perform_alarm_action rem func action ent site)))"
  unfolding perform_past_checks [OF assms]
  by (simp add: Let_def optimistic_state_def split: prod.splits remote_reply.splits)

theorem remote_exception_keeps_assumed_state_witness:
  "check_if_system_armable idle_alarm disarmed_site ARMED_AWAY = Inr ()
   \<and> alarm_state idle_alarm disarmed_site \<noteq> Some ARMED_AWAY
   \<and> fst (panel_raises (async_arm_away False) disarmed_site) = Raised ''connection lost''
   \<and> async_alarm_arm_away panel_raises idle_alarm disarmed_site =
       \<lparr>outcome = Inl (RemoteException ''connection lost''),
        entity = \<lparr>assumed_state = Some ARMING\<rparr>, site_after = disarmed_site,
        trace = [SetAssumed (Some ARMING), WriteState (Some ARMING),
                 RemoteCall (async_arm_away False)]\<rparr>"
  using remote_exception_keeps_assumed_state [of ARMED_AWAY idle_alarm disarmed_site
      panel_raises "async_arm_away False"]
  by (simp add: alarm_eval)

subsection \<open>The assumed state when a command returns\<close>

text \<open>
  Claim C3 says that the assumed state is absent whenever a command returns. The
  idempotence check returns without touching it. With the gateway offline and the panel
  armed away, a disarm whose remote command raises leaves the assumed state at
  \<open>DISARMED\<close>; the next disarm finds the resolved state equal to its target and returns
  normally, the assumed state still \<open>DISARMED\<close>.
\<close>

theorem assumed_state_after_return_counterexample:
  "entity (async_alarm_disarm panel_raises idle_alarm offline_away_site) =
     \<lparr>assumed_state = Some DISARMED\<rparr>
   \<and> outcome (async_alarm_disarm panel_accepts \<lparr>assumed_state = Some DISARMED\<rparr>
        offline_away_site) = Inr ()
   \<and> assumed_state (entity (async_alarm_disarm panel_accepts \<lparr>assumed_state = Some DISARMED\<rparr>
        offline_away_site)) = Some DISARMED"
  by (simp add: alarm_eval)

text \<open>
  Claim C3, amended. A command that returns normally or fails with the command-rejected
  error has either awaited its remote command, and then the assumed state is absent and
  the last thing it did before returning or raising was to clear it and publish the
  resolved state; or it returned through the idempotence check, and then the entity is
  as it was at entry (so the assumed state is absent if it was absent at entry).
\<close>

theorem assumed_state_after_return:
  assumes "outcome (perform_alarm_action rem func action ent site) = Inr ()
     \<or> outcome (perform_alarm_action rem func action ent site)
         = Inl (HomeAssistantError (rejected_message action))"
  shows "(if alarm_state ent site = Some action
      then entity (perform_alarm_action rem func action ent site) = ent
        \<and> trace (perform_alarm_action rem func action ent site)
            = [LogWarning same_state_warning]
      else assumed_state (entity (perform_alarm_action rem func action ent site)) = None
        \<and> (\<exists>before. trace (perform_alarm_action rem func action ent site) =
              before @ [SetAssumed None,
                     WriteState (ALARM_MAP (alarm_status
                       (site_after (perform_alarm_action rem func action ent site))))]))"
proof (cases "alarm_state ent site = Some action")
  case True
  with assms show ?thesis
    by (auto simp: perform_alarm_action_def check_if_system_armable_def
        rejected_not_precondition split: if_splits)
next
  case False
  from assms have pre: "action = DISARMED \<or> check_if_system_armable ent site action = Inr ()"
    by (cases "action = DISARMED"; cases "check_if_system_armable ent site action")
       (auto simp: perform_alarm_action_def check_if_system_armable_def
          rejected_not_precondition split: if_splits)
  show ?thesis
    using False assms unfolding perform_past_checks [OF pre False]
    by (auto simp: Let_def split: prod.splits remote_reply.splits if_splits)
qed

theorem assumed_state_after_return_witness:
  "outcome (async_alarm_arm_away panel_rejects idle_alarm disarmed_site) =
       Inl (HomeAssistantError (rejected_message ARMED_AWAY))
   \<and> alarm_state idle_alarm disarmed_site \<noteq> Some ARMED_AWAY
   \<and> async_alarm_arm_away panel_rejects idle_alarm disarmed_site =
       \<lparr>outcome = Inl (HomeAssistantError ''Could not set alarm status to armed_away''),
        entity = \<lparr>assumed_state = None\<rparr>, site_after = disarmed_site,
        trace = [SetAssumed (Some ARMING), WriteState (Some ARMING),
                 RemoteCall (async_arm_away False),
                 LogWarning ''Could not armed_away ADT Pulse alarm'',
                 SetAssumed None, WriteState (Some DISARMED)]\<rparr>"
  using assumed_state_after_return [of panel_rejects "async_arm_away False" ARMED_AWAY
      idle_alarm disarmed_site]
  by (simp add: alarm_eval)

section \<open>The coordinator\<close>

subsection \<open>Auxiliary facts\<close>

lemma and_then_None [simp]: "and_then (tr, None) r = (tr @ fst r, snd r)"
  by (simp add: and_then_def)

lemma and_then_Some [simp]: "and_then (tr, Some e) r = (tr, Some e)"
  by (simp add: and_then_def)

lemma fst_and_then:
  "fst (and_then r1 r2) = (case snd r1 of Some e \<Rightarrow> fst r1 | None \<Rightarrow> fst r1 @ fst r2)"
  by (simp add: and_then_def split: option.splits)

lemma call_listener_registered:
  "k \<in> dom d \<Longrightarrow> call_listener d k = ([Call (the (d k))], None)"
  by (auto simp: call_listener_def)

lemma update_zones_registered:
  "set (concat (map (\<lambda>z. [zone_topic z, zone_trouble_topic z]) zs)) \<subseteq> dom d \<Longrightarrow>
   update_zones d zs =
     (map (\<lambda>k. Call (the (d k))) (concat (map (\<lambda>z. [zone_topic z, zone_trouble_topic z]) zs)), None)"
  by (induction zs) (simp_all add: call_listener_registered zone_topic_def zone_trouble_topic_def)

lemma alarm_topic_iff: "(ALARM_CONTEXT \<in> set (snapshot_topics s)) = fst s"
  by (auto simp: snapshot_topics_def ALARM_CONTEXT_def zone_topic_def zone_trouble_topic_def
      ZONE_CONTEXT_PREFIX_def CONNECTION_STATUS_CONTEXT_def NEXT_REFRESH_CONTEXT_def)

lemma full_refresh:
  "data c = None \<Longrightarrow> async_update_listeners c = (FanOut None # map Call (callbacks c), None)"
  by (simp add: async_update_listeners_def super_async_update_listeners_def)

lemma fan_outs_append [simp]: "fan_outs (xs @ ys) = fan_outs xs @ fan_outs ys"
  by (induction xs rule: fan_outs.induct) simp_all

lemma fan_outs_calls [simp]: "fan_outs (map Call xs) = []"
  by (induction xs) simp_all

lemma fan_outs_call_listener [simp]: "fan_outs (fst (call_listener d k)) = []"
  by (simp add: call_listener_def split: option.splits)

lemma fan_outs_and_then:
  "fan_outs (fst r1) = [] \<Longrightarrow> fan_outs (fst r2) = [] \<Longrightarrow> fan_outs (fst (and_then r1 r2)) = []"
  by (simp add: fst_and_then split: option.splits)

lemma fan_outs_update_zones [simp]: "fan_outs (fst (update_zones d zs)) = []"
  by (induction zs) (simp_all add: fan_outs_and_then)

text \<open>Every entry into \<open>async_update_listeners\<close> is one fan-out, whether or not it ends in an exception.\<close>

lemma fan_outs_async_update_listeners:
  "fan_outs (fst (async_update_listeners c)) = [data c]"
  by (simp add: async_update_listeners_def super_async_update_listeners_def fan_outs_and_then
      split: option.splits prod.splits)

lemma callbacks_unchanged [simp]:
  "callbacks (c\<lparr>data := d\<rparr>) = callbacks c"
  "callbacks (c\<lparr>last_exception := e\<rparr>) = callbacks c"
  "callbacks (c\<lparr>last_update_success := b\<rparr>) = callbacks c"
  by (simp_all add: callbacks_def)

lemma add_listeners_dictionary:
  "listener_dictionary (add_listeners regs c) t =
     (if t \<in> snd ` set regs then Some (fst (last (filter (\<lambda>r. snd r = t) regs)))
      else listener_dictionary c t)"
proof (induction regs arbitrary: c)
  case Nil
  then show ?case by simp
next
  case (Cons r regs)
  obtain cb ctx where r: "r = (cb, ctx)" by (cases r)
  show ?case
    unfolding r
    by (auto simp: Cons.IH async_add_listener_def super_async_add_listener_def Let_def
        filter_empty_conv image_iff)
qed

lemma add_listeners_callbacks:
  "callbacks (add_listeners regs c) = callbacks c @ map fst regs"
proof (induction regs arbitrary: c)
  case Nil
  then show ?case by simp
next
  case (Cons r regs)
  obtain cb ctx where r: "r = (cb, ctx)" by (cases r)
  show ?case
    unfolding r
    by (simp add: Cons.IH) (simp add: callbacks_def async_add_listener_def
        super_async_add_listener_def Let_def)
qed

lemmas coordinator_eval =
  two_listeners_def zone_listeners_def new_coordinator_def async_add_listener_def
  super_async_add_listener_def update_cycle_def except_clauses_def finally_clause_def
  async_set_update_error_def async_set_updated_data_def async_update_listeners_def
  super_async_update_listeners_def callbacks_def call_listener_def and_then_def
  snapshot_topics_def zone_topic_def zone_trouble_topic_def py_str_def str_nat.simps
  digit_char_def ALARM_CONTEXT_def CONNECTION_STATUS_CONTEXT_def NEXT_REFRESH_CONTEXT_def
  ZONE_CONTEXT_PREFIX_def ZONE_TROUBLE_PREFIX_def Let_def

subsection \<open>Fan-out by snapshot\<close>

text \<open>
  Claim C4. Fan-out on a \<open>None\<close> snapshot calls every listener of the registry, once
  each, in the order of registration. On any other snapshot whose topics all have a
  listener in the dictionary, it calls exactly the listeners of the snapshot's topics, in
  order and without an exception: the alarm listener if and only if the alarm-changed
  flag is set, the zone and the zone-trouble listener of each changed zone, and the
  connection-status and next-refresh listeners.
\<close>

theorem fan_out_by_snapshot:
  "(case data c of
      None \<Rightarrow> async_update_listeners c = (FanOut None # map Call (callbacks c), None)
    | Some s \<Rightarrow>
        (set (snapshot_topics s) \<subseteq> dom (listener_dictionary c) \<longrightarrow>
           async_update_listeners c =
             (FanOut (Some s) # map (\<lambda>k. Call (the (listener_dictionary c k))) (snapshot_topics s),
              None))
        \<and> (ALARM_CONTEXT \<in> set (snapshot_topics s)) = fst s)"
proof (cases "data c")
  case None
  then show ?thesis
    by (simp add: full_refresh)
next
  case (Some s)
  obtain a zs where s: "s = (a, zs)" by (cases s)
  have "set (snapshot_topics s) \<subseteq> dom (listener_dictionary c) \<Longrightarrow>
     async_update_listeners c =
       (FanOut (Some s) # map (\<lambda>k. Call (the (listener_dictionary c k))) (snapshot_topics s),
        None)"
    using Some unfolding s
    by (cases a)
       (simp_all add: async_update_listeners_def snapshot_topics_def call_listener_registered
          update_zones_registered)
  with Some show ?thesis
    by (simp add: alarm_topic_iff)
qed

theorem fan_out_by_snapshot_witness:
  "set (snapshot_topics (True, [3])) \<subseteq> dom (listener_dictionary zone_listeners)
   \<and> async_update_listeners (zone_listeners\<lparr>data := Some (True, [3])\<rparr>) =
       ([FanOut (Some (True, [3])), Call 1, Call 2, Call 3, Call 4, Call 5], None)
   \<and> async_update_listeners (zone_listeners\<lparr>data := Some (False, [])\<rparr>) =
       ([FanOut (Some (False, [])), Call 4, Call 5], None)
   \<and> async_update_listeners (zone_listeners\<lparr>data := None\<rparr>) =
       ([FanOut None, Call 1, Call 2, Call 3, Call 4, Call 5, Call 6], None)"
  using fan_out_by_snapshot [of "zone_listeners\<lparr>data := Some (True, [3])\<rparr>"]
  by (simp add: coordinator_eval)

subsection \<open>Retryable failures\<close>

text \<open>
  The bookkeeping fields do not bear on a fan-out; a cycle that succeeds leaves a
  coordinator whose fan-out raises nothing; and the two ways the failure handler runs,
  after a success and after another failure.
\<close>

lemma async_update_listeners_bookkeeping:
  "async_update_listeners (c\<lparr>last_exception := e\<rparr>) = async_update_listeners c"
  "async_update_listeners (c\<lparr>last_update_success := b\<rparr>) = async_update_listeners c"
  by (simp_all add: async_update_listeners_def super_async_update_listeners_def
      split: option.splits prod.splits)

lemma successful_cycle:
  assumes "update_cycle (Update s) c0 = (Continue, c1, tr0)"
  shows "c1 = c0\<lparr>last_exception := None, data := Some s, last_update_success := True\<rparr>
     \<and> async_update_listeners c1 = (tr0, None)"
proof -
  let ?c = "c0\<lparr>last_exception := None, data := Some s, last_update_success := True\<rparr>"
  obtain tr e where r: "async_update_listeners ?c = (tr, e)"
    by (cases "async_update_listeners ?c")
  from assms r show ?thesis
    by (cases e)
       (auto simp: update_cycle_def except_clauses_def finally_clause_def
          async_set_updated_data_def Let_def)
qed

lemma first_failure_cycle:
  assumes "ex = PulseExceptionWithRetry \<or> ex = PulseExceptionWithBackoff"
    and "last_update_success c" and "async_update_listeners c = (tr, None)"
  shows "update_cycle (Raises ex) c =
     (Continue, c\<lparr>last_exception := Some ex, last_update_success := False, data := None\<rparr>,
      tr @ FanOut None # map Call (callbacks c))"
proof -
  have ec: "except_clauses (Raises ex) c = (Continue, Some ex, None, [])"
    using assms(1) by (auto simp: except_clauses_def)
  show ?thesis
    using assms(2,3)
    by (simp add: update_cycle_def ec finally_clause_def async_set_update_error_def full_refresh
        async_update_listeners_bookkeeping)
qed

lemma later_failure_cycle:
  assumes "ex = PulseExceptionWithRetry \<or> ex = PulseExceptionWithBackoff"
    and "\<not> last_update_success c"
  shows "update_cycle (Raises ex) c =
     (Continue, c\<lparr>last_exception := Some ex, data := None\<rparr>,
      FanOut None # map Call (callbacks c))"
proof -
  have ec: "except_clauses (Raises ex) c = (Continue, Some ex, None, [])"
    using assms(1) by (auto simp: except_clauses_def)
  show ?thesis
    using assms(2)
    by (simp add: update_cycle_def ec finally_clause_def async_set_update_error_def full_refresh)
qed

lemma later_failures_run:
  assumes "set exs \<subseteq> {PulseExceptionWithRetry, PulseExceptionWithBackoff}"
    and "\<not> last_update_success c"
  shows "async_update_data (map (\<lambda>ex. (False, Raises ex)) exs) c =
     (Suspended,
      (if exs = [] then c else c\<lparr>last_exception := Some (last exs), data := None\<rparr>),
      concat (replicate (length exs) (FanOut None # map Call (callbacks c))))"
  using assms
proof (induction exs arbitrary: c)
  case Nil
  then show ?case by simp
next
  case (Cons ex exs)
  let ?c' = "c\<lparr>last_exception := Some ex, data := None\<rparr>"
  have ex: "ex = PulseExceptionWithRetry \<or> ex = PulseExceptionWithBackoff"
    and rest: "set exs \<subseteq> {PulseExceptionWithRetry, PulseExceptionWithBackoff}"
    using Cons.prems(1) by auto
  have later: "\<not> last_update_success ?c'"
    using Cons.prems(2) by simp
  show ?case
    by (simp add: later_failure_cycle [OF ex Cons.prems(2)] Cons.IH [OF rest later])
qed

text \<open>
  Claim C2 says that in a run of consecutive retryable failures after a successful
  cycle only the first one fans out, and does so once. With listeners for the
  connection-status and next-refresh topics, a successful cycle followed by two retryable
  failures gives four fan-outs: one for the success, two for the first failure (one from
  \<open>async_set_update_error\<close>, still with the old snapshot, one after the snapshot is
  cleared), and one more for the second failure.
\<close>

theorem retryable_failures_counterexample:
  "snd (snd (async_update_data
       [(False, Update (False, [])), (False, Raises PulseExceptionWithRetry),
        (False, Raises PulseExceptionWithRetry)] two_listeners))
   = [FanOut (Some (False, [])), Call 1, Call 2,
      FanOut (Some (False, [])), Call 1, Call 2, FanOut None, Call 1, Call 2,
      FanOut None, Call 1, Call 2]"
  by (simp add: coordinator_eval)

text \<open>
  Claim C2, amended. In every run of consecutive retryable failures that follows a
  successful cycle, each failure, the first and every later one alike, records the
  exception, sets the snapshot to \<open>None\<close> and then fans out on the cleared snapshot,
  calling every listener of the registry: the loop goes on through the whole run, and
  each failure adds exactly one such fan-out. Before the first of them comes one more
  fan-out, made by \<open>async_set_update_error\<close> with the snapshot of the successful
  cycle, which repeats that cycle's calls.
\<close>

theorem retryable_failure_run:
  assumes "update_cycle (Update s) c0 = (Continue, c1, tr0)"
    and "set exs \<subseteq> {PulseExceptionWithRetry, PulseExceptionWithBackoff}"
    and "exs \<noteq> []"
  shows "async_update_data (map (\<lambda>ex. (False, Raises ex)) exs) c1 =
       (Suspended,
        c1\<lparr>last_exception := Some (last exs), last_update_success := False, data := None\<rparr>,
        tr0 @ concat (replicate (length exs) (FanOut None # map Call (callbacks c1))))
     \<and> fan_outs (tr0 @ concat (replicate (length exs) (FanOut None # map Call (callbacks c1))))
       = Some s # replicate (length exs) None"
proof -
  obtain ex rest where exs: "exs = ex # rest"
    using assms(3) by (cases exs) auto
  have ex: "ex = PulseExceptionWithRetry \<or> ex = PulseExceptionWithBackoff"
    and rest: "set rest \<subseteq> {PulseExceptionWithRetry, PulseExceptionWithBackoff}"
    using assms(2) unfolding exs by auto
  note sc = successful_cycle [OF assms(1)]
  have ok: "last_update_success c1" and d1: "data c1 = Some s"
    by (simp_all add: sc [THEN conjunct1])
  have aul: "async_update_listeners c1 = (tr0, None)"
    by (rule sc [THEN conjunct2])
  let ?c2 = "c1\<lparr>last_exception := Some ex, last_update_success := False, data := None\<rparr>"
  have later: "\<not> last_update_success ?c2" by simp
  have f0: "fan_outs tr0 = [Some s]"
    using fan_outs_async_update_listeners [of c1] by (simp add: aul d1)
  have fr: "fan_outs (concat (replicate n (FanOut None # map Call xs))) = replicate n None"
    for n and xs :: "'a list"
    by (induction n) simp_all
  have run: "async_update_data (map (\<lambda>ex. (False, Raises ex)) exs) c1 =
       (Suspended,
        c1\<lparr>last_exception := Some (last exs), last_update_success := False, data := None\<rparr>,
        tr0 @ concat (replicate (length exs) (FanOut None # map Call (callbacks c1))))"
    unfolding exs
    by (simp add: first_failure_cycle [OF ex ok aul] later_failures_run [OF rest later])
  show ?thesis
    using run by (simp add: f0 fr)
qed

theorem retryable_failure_run_witness:
  "update_cycle (Update (False, [])) two_listeners =
     (Continue,
      two_listeners\<lparr>last_exception := None, data := Some (False, []), last_update_success := True\<rparr>,
      [FanOut (Some (False, [])), Call 1, Call 2])
   \<and> set [PulseExceptionWithRetry, PulseExceptionWithBackoff]
       \<subseteq> {PulseExceptionWithRetry, PulseExceptionWithBackoff}
   \<and> [PulseExceptionWithRetry, PulseExceptionWithBackoff] \<noteq> []
   \<and> async_update_data
       [(False, Raises PulseExceptionWithRetry), (False, Raises PulseExceptionWithBackoff)]
       (two_listeners\<lparr>last_exception := None, data := Some (False, []),
          last_update_success := True\<rparr>) =
     (Suspended,
      two_listeners\<lparr>last_exception := Some PulseExceptionWithBackoff, data := None,
        last_update_success := False\<rparr>,
      [FanOut (Some (False, [])), Call 1, Call 2, FanOut None, Call 1, Call 2,
       FanOut None, Call 1, Call 2])"
  using retryable_failure_run [of "(False, [])" two_listeners
      "two_listeners\<lparr>last_exception := None, data := Some (False, []),
         last_update_success := True\<rparr>"
      "[FanOut (Some (False, [])), Call 1, Call 2]"
      "[PulseExceptionWithRetry, PulseExceptionWithBackoff]"]
  by (simp add: coordinator_eval)

subsection \<open>Cancellation\<close>

text \<open>
  Claim C8. When the wait for an update is cancelled the loop is to end without any
  further fan-out. The loop does end, but the \<open>finally\<close> clause still runs after the
  \<open>return\<close> of the cancellation clause; \<open>update_exception\<close> is unset there, so it
  calls \<open>async_set_updated_data\<close> with \<open>None\<close>, which marks the update a success
  and calls every listener. Here the first cycle succeeds and the second one is
  cancelled: the last three events are the fan-out of the cancelled cycle.
\<close>

theorem cancellation_fans_out:
  "async_update_data [(False, Update (False, [])), (False, Raises CancelledError)] two_listeners
   = (Finished,
      two_listeners\<lparr>data := None, last_update_success := True, last_exception := None\<rparr>,
      [FanOut (Some (False, [])), Call 1, Call 2, FanOut None, Call 1, Call 2])"
  by (simp add: coordinator_eval)

subsection \<open>Registration\<close>

text \<open>
  Claim C9 says that a fan-out never calls both the old and the new callback of a topic
  that was registered twice. The dictionary of this class keeps one callback per topic,
  but each registration also adds an entry to the registry of the base class, and the
  fan-out on a \<open>None\<close> snapshot walks that registry: it calls both.
\<close>

theorem registration_counterexample:
  "async_update_listeners
     (add_listeners [(1::nat, ALARM_CONTEXT), (2, ALARM_CONTEXT)] (new_coordinator True))
   = ([FanOut None, Call 1, Call 2], None)"
  by (simp add: coordinator_eval)

text \<open>
  Claim C9, amended. After any sequence of registrations, the dictionary holds for every
  topic registered in it exactly one callback, the one registered last, and a lookup of
  that topic by a selective fan-out calls that callback and no other. The fan-out of the
  base class, used for a \<open>None\<close> snapshot, calls the callback of every registration,
  replaced or not, after those that were there before.
\<close>

theorem registration_replaces_slot:
  assumes "t \<in> snd ` set regs"
  shows "call_listener (listener_dictionary (add_listeners regs c)) t =
       ([Call (fst (last (filter (\<lambda>r. snd r = t) regs)))], None)
     \<and> super_async_update_listeners (add_listeners regs c) =
       (map Call (callbacks c @ map fst regs), None)"
  using assms
  by (simp add: call_listener_def add_listeners_dictionary super_async_update_listeners_def
      add_listeners_callbacks)

theorem registration_replaces_slot_witness:
  "ALARM_CONTEXT \<in> snd ` set [(1::nat, ALARM_CONTEXT), (2, NEXT_REFRESH_CONTEXT), (3, ALARM_CONTEXT)]
   \<and> call_listener
       (listener_dictionary
          (add_listeners [(1::nat, ALARM_CONTEXT), (2, NEXT_REFRESH_CONTEXT), (3, ALARM_CONTEXT)]
             (new_coordinator True)))
       ALARM_CONTEXT = ([Call 3], None)
   \<and> super_async_update_listeners
       (add_listeners [(1::nat, ALARM_CONTEXT), (2, NEXT_REFRESH_CONTEXT), (3, ALARM_CONTEXT)]
          (new_coordinator True))
     = ([Call 1, Call 2, Call 3], None)"
  using registration_replaces_slot [of ALARM_CONTEXT
      "[(1::nat, ALARM_CONTEXT), (2, NEXT_REFRESH_CONTEXT), (3, ALARM_CONTEXT)]"
      "new_coordinator True"]
  by (simp add: coordinator_eval)

end
